theory Spec2Isabelle
  imports Main
begin

section \<open>Fragments of the Python runtime that app.py relies on\<close>

text \<open>
  Strings are lists of characters; a character stands for a code point below 256.
  Exceptions are values of \<open>py_error\<close>; a computation that may raise returns
  \<open>py_error + 'a\<close>, with \<open>Inl\<close> for the exception.
\<close>

datatype py_error = OSError | IndexError | ValueError | KeyError | TypeError

text \<open>
  The characters \<open>str.split()\<close> and \<open>int()\<close> treat as whitespace: tab, line feed,
  vertical tab, form feed, carriage return, the four separators 0x1C..0x1F, space,
  and (above ASCII) NEL 0x85 and the no-break space 0xA0.
\<close>

definition is_space :: "char \<Rightarrow> bool" where
  "is_space c = (of_char c \<in> set [9, 10, 11, 12, 13, 28, 29, 30, 31, 32, 133, 160 :: nat])"

text \<open>\<open>s.startswith(p)\<close>.\<close>

definition startswith :: "string \<Rightarrow> string \<Rightarrow> bool" where
  "startswith s p = (take (length p) s = p)"

text \<open>
  \<open>s.split()\<close> with no separator: runs of whitespace separate the tokens, and leading
  and trailing whitespace yields no empty token. \<open>split_from tok cs\<close> scans \<open>cs\<close> with
  \<open>tok\<close> the token read so far.
\<close>

fun split_from :: "string \<Rightarrow> string \<Rightarrow> string list" where
  "split_from tok [] = (if tok = [] then [] else [tok])"
| "split_from tok (c # cs) =
     (if is_space c
      then (if tok = [] then split_from [] cs else tok # split_from [] cs)
      else split_from (tok @ [c]) cs)"

definition split :: "string \<Rightarrow> string list" where
  "split s = split_from [] s"

text \<open>\<open>s.strip()\<close>, as \<open>int()\<close> applies it to its argument.\<close>

definition strip :: "string \<Rightarrow> string" where
  "strip s = rev (dropWhile is_space (rev (dropWhile is_space s)))"

definition is_digit :: "char \<Rightarrow> bool" where
  "is_digit c = (48 \<le> (of_char c :: nat) \<and> (of_char c :: nat) \<le> 57)"

definition digit_val :: "char \<Rightarrow> nat" where
  "digit_val c = of_char c - 48"

text \<open>
  The digits of a decimal literal as \<open>int()\<close> accepts them: digits, with single
  underscores allowed between two digits. \<open>after_digit acc cs\<close> continues after a
  digit, \<open>after_underscore acc cs\<close> after an underscore; \<open>None\<close> is a syntax error.
\<close>

fun after_digit :: "nat \<Rightarrow> string \<Rightarrow> nat option"
  and after_underscore :: "nat \<Rightarrow> string \<Rightarrow> nat option" where
  "after_digit acc [] = Some acc"
| "after_digit acc (c # cs) =
     (if is_digit c then after_digit (10 * acc + digit_val c) cs
      else if c = CHR ''_'' then after_underscore acc cs
      else None)"
| "after_underscore acc [] = None"
| "after_underscore acc (c # cs) =
     (if is_digit c then after_digit (10 * acc + digit_val c) cs else None)"

text \<open>
  The interpreter's limit on the number of digits of a decimal string converted to an
  integer (\<open>sys.get_int_max_str_digits()\<close>, 4300 unless reconfigured).
\<close>

definition int_max_str_digits :: nat where
  "int_max_str_digits = 4300"

text \<open>
  \<open>int(s)\<close> for a string in base 10: surrounding whitespace is stripped, one sign is
  allowed, and anything that is not a decimal literal raises ValueError.
\<close>

definition py_int :: "string \<Rightarrow> py_error + int" where
  "py_int s =
     (let t = strip s;
          neg = (case t of [] \<Rightarrow> False | c # _ \<Rightarrow> c = CHR ''-'');
          body = (case t of [] \<Rightarrow> []
                  | c # r \<Rightarrow> if c = CHR ''-'' \<or> c = CHR ''+'' then r else t)
      in case body of
           [] \<Rightarrow> Inl ValueError
         | d # ds \<Rightarrow>
             if \<not> is_digit d then Inl ValueError
             else if length (filter is_digit body) > int_max_str_digits then Inl ValueError
             else (case after_digit (digit_val d) ds of
                     None \<Rightarrow> Inl ValueError
                   | Some n \<Rightarrow> Inr (if neg then - int n else int n)))"

text \<open>\<open>a // b\<close> on integers with a non-zero divisor: the floor of the quotient.\<close>

definition floordiv :: "int \<Rightarrow> int \<Rightarrow> int" where
  "floordiv a b = a div b"

section \<open>The System Stat Sampler: \<open>cpu_time_callback\<close>\<close>

text \<open>
  \<open>Observation(value, attributes)\<close>: the attributes dictionary is kept as the list of
  its items in insertion order.
\<close>

record observation =
  obs_value :: int
  attributes :: "(string \<times> string) list"

definition Observation :: "int \<Rightarrow> (string \<times> string) list \<Rightarrow> observation" where
  "Observation v attrs = \<lparr>obs_value = v, attributes = attrs\<rparr>"

text \<open>
  The body of the loop for one matched line (lines 72 to 76): unpack
  \<open>cpu, *states = line.split()\<close>, then build the user-mode and the system-mode
  Observation. Unpacking an empty token list raises ValueError, \<open>states[0]\<close> and
  \<open>states[1]\<close> raise IndexError when absent, and \<open>int\<close> raises ValueError; the first
  Observation is evaluated completely before \<open>states[1]\<close> is read.
\<close>

definition row_observations :: "string \<Rightarrow> py_error + observation list" where
  "row_observations line =
     (case split line of
        [] \<Rightarrow> Inl ValueError
      | cpu # states \<Rightarrow>
          (case states of
             [] \<Rightarrow> Inl IndexError
           | s0 # rest \<Rightarrow>
               (case py_int s0 of
                  Inl e \<Rightarrow> Inl e
                | Inr u \<Rightarrow>
                    (case rest of
                       [] \<Rightarrow> Inl IndexError
                     | s1 # _ \<Rightarrow>
                         (case py_int s1 of
                            Inl e \<Rightarrow> Inl e
                          | Inr v \<Rightarrow>
                              Inr [Observation (floordiv u 100)
                                     [(''cpu'', cpu), (''state'', ''user'')],
                                   Observation (floordiv v 100)
                                     [(''cpu'', cpu), (''state'', ''system'')]])))))"

text \<open>
  The loop \<open>for line in procstat\<close> (lines 69 to 76) over the lines still unread, with
  the list \<open>observations\<close> built so far: it leaves at the first line that does not
  start with \<open>cpu\<close>, and an exception in the body abandons the list.
\<close>

fun scan_lines :: "observation list \<Rightarrow> string list \<Rightarrow> py_error + observation list" where
  "scan_lines observations [] = Inr observations"
| "scan_lines observations (line # rest) =
     (if \<not> startswith line ''cpu'' then Inr observations
      else (case row_observations line of
              Inl e \<Rightarrow> Inl e
            | Inr new \<Rightarrow> scan_lines (observations @ new) rest))"

section \<open>The state the service works on\<close>

text \<open>
  What the functions of app.py read and change: the files that \<open>open\<close> can reach (a
  path gives the lines its file object yields, each with its line terminator, or the
  exception \<open>open\<close> raises; a file that has opened is read to its end without an
  error), the deltas passed to \<open>request_counter.add\<close> in call
  order, the calls made on the root logger, the spans that have ended, the
  random generator (\<open>rng st k a b\<close> is what the \<open>k\<close>-th call of \<open>randint\<close> returns
  when it is called with the bounds \<open>a\<close> and \<open>b\<close>, and \<open>draws\<close> counts the calls made),
  and the errors that scrapes have recorded, each with the name of its instrument.
\<close>

datatype log_level = DEBUG | INFO | ERROR

record span =
  span_name :: string
  span_attributes :: "(string \<times> int) list"
  span_events :: "string list"

record app_state =
  files :: "string \<Rightarrow> py_error + string list"
  request_counter :: "int list"
  log_calls :: "(log_level \<times> string) list"
  spans :: "span list"
  rng :: "nat \<Rightarrow> int \<Rightarrow> int \<Rightarrow> int"
  draws :: nat
  collection_errors :: "(string \<times> py_error) list"

text \<open>\<open>CallbackOptions\<close>: the timeout the reader passes to a callback.\<close>

record callback_options =
  timeout_millis :: int

text \<open>
  \<open>cpu_time_callback\<close> (lines 65 to 77): open \<open>/proc/stat\<close>, drop the first line with
  \<open>readline()\<close> (which returns the empty string at the end of the file and raises
  nothing), scan the remaining lines. The function writes to nothing outside its own
  list, so it returns no new state.
\<close>

definition cpu_time_callback ::
  "callback_options \<Rightarrow> app_state \<Rightarrow> py_error + observation list" where
  "cpu_time_callback options st =
     (case files st ''/proc/stat'' of
        Inl e \<Rightarrow> Inl e
      | Inr procstat \<Rightarrow> scan_lines [] (drop 1 procstat))"

section \<open>The request handler: \<open>roll_dice\<close>\<close>

text \<open>\<open>str(i)\<close> for an integer: its decimal digits, with a minus sign when negative.\<close>

fun dec_digits :: "nat \<Rightarrow> string" where
  "dec_digits n =
     (if n < 10 then [char_of (48 + n)]
      else dec_digits (n div 10) @ [char_of (48 + n mod 10)])"

definition py_str :: "int \<Rightarrow> string" where
  "py_str i = (if i < 0 then CHR ''-'' # dec_digits (nat (- i)) else dec_digits (nat i))"

text \<open>\<open>logging.getLogger().info(msg)\<close> and its siblings: a call on the root logger.\<close>

definition log_call :: "log_level \<Rightarrow> string \<Rightarrow> app_state \<Rightarrow> app_state" where
  "log_call level msg st = st\<lparr>log_calls := log_calls st @ [(level, msg)]\<rparr>"

text \<open>\<open>request_counter.add(amount)\<close>.\<close>

definition counter_add :: "int \<Rightarrow> app_state \<Rightarrow> app_state" where
  "counter_add amount st = st\<lparr>request_counter := request_counter st @ [amount]\<rparr>"

text \<open>\<open>randint(a, b)\<close>: the next draw of the generator.\<close>

definition randint :: "int \<Rightarrow> int \<Rightarrow> app_state \<Rightarrow> int \<times> app_state" where
  "randint a b st = (rng st (draws st) a b, st\<lparr>draws := Suc (draws st)\<rparr>)"

text \<open>Leaving a \<open>with tracer.start_as_current_span(...)\<close> block ends its span.\<close>

definition end_span :: "span \<Rightarrow> app_state \<Rightarrow> app_state" where
  "end_span sp st = st\<lparr>spans := spans st @ [sp]\<rparr>"

text \<open>\<open>do_roll\<close> (lines 24 to 33).\<close>

definition do_roll :: "app_state \<Rightarrow> int \<times> app_state" where
  "do_roll st0 =
     (let st1 = log_call INFO ''do_roll: Starting the function execution.'' st0;
          (res, st2) = randint 1 7 st1;
          st3 = log_call DEBUG
                  (''do_roll: Dice roll resulted in value '' @ py_str res @ ''.'') st2;
          current_span = \<lparr>span_name = ''do_roll'',
                          span_attributes = [(''roll.value'', res)],
                          span_events = [''Dice roll span event.'']\<rparr>;
          st4 = log_call INFO ''do_roll: Function execution completed.'' st3
      in (res, end_span current_span st4))"

text \<open>\<open>do_important_job\<close> (lines 36 to 43).\<close>

definition do_important_job :: "app_state \<Rightarrow> app_state" where
  "do_important_job st0 =
     (let st1 = log_call INFO ''do_important_job: Starting an important job.'' st0;
          (result, st2) = randint 1 10000 st1;
          sp = \<lparr>span_name = ''do_important_job'',
                span_attributes = [(''important_job.result'', result)],
                span_events =
                  [''Important job completed with result '' @ py_str result @ ''.'']\<rparr>;
          st3 = log_call DEBUG
                  (''do_important_job: Important job result: '' @ py_str result @ ''.'') st2;
          st4 = end_span sp st3
      in log_call INFO ''do_important_job: Function execution completed.'' st4)"

text \<open>
  What a view function returns: a body alone, or a body with a status. The framework
  answers a body alone with the status 200.
\<close>

datatype view_result = Body string | BodyStatus string int


text \<open>\<open>roll_dice\<close> (lines 46 to 56), the handler of \<open>/rolldice\<close>.\<close>

definition roll_dice :: "app_state \<Rightarrow> view_result \<times> app_state" where
  "roll_dice st0 =
     (let st1 = log_call INFO ''roll_dice: Received a request on /rolldice.'' st0;
          st2 = counter_add 1 st1;
          (result, st3) = do_roll st2;
          st4 = do_important_job st3
      in if result < 0 \<or> result > 6
         then (BodyStatus ''Something went wrong!'' 500,
               log_call ERROR
                 (''roll_dice: Invalid dice value received: '' @ py_str result @ ''!'') st4)
         else (Body (py_str result),
               log_call INFO
                 (''roll_dice: Successfully completed with result: '' @ py_str result @ ''.'')
                 st4))"

section \<open>Configuration from the environment\<close>






section \<open>The Metrics Provider\<close>

text \<open>
  \<open>init_metrics\<close> (lines 90 to 105) registers two instruments with the meter, in this
  order: the counter \<open>request_counter\<close> and the observable counter
  \<open>system.cpu.time\<close> with the callback \<open>cpu_time_callback\<close>.
\<close>

datatype instrument =
    Counter string
  | ObservableCounter string "callback_options \<Rightarrow> app_state \<Rightarrow> py_error + observation list"

definition registered_instruments :: "instrument list" where
  "registered_instruments =
     [Counter ''request_counter'', ObservableCounter ''system.cpu.time'' cpu_time_callback]"

text \<open>
  Modelled from the spec: what one scrape gives (section 4.2), the entries it emits, a running total for a counter and the
  Observations for an observable counter, and the errors it records internally, each
  with the name of the instrument whose callback failed.
\<close>

datatype metric = Total string int | Observed string "observation list"

record scrape =
  emitted :: "metric list"
  recorded_errors :: "(string \<times> py_error) list"

text \<open>
  Modelled from the spec: the pull entry point \<open>collect()\<close> of the Metrics Provider,
  which the application reaches through \<open>generate_latest()\<close> (line 62) and whose
  implementation belongs to the metrics library, not to app.py. Section 4.2: it
  enumerates every registered instrument exactly once, in a stable order; for a counter
  it emits the latest running total (the sum of the deltas added so far); for an
  observable counter it invokes the callback and emits every Observation returned; it
  never raises to the caller, and a callback that fails has its instrument omitted from
  the output and an error recorded internally, while the other instruments are still
  evaluated and emitted.
\<close>

fun collect_instrument ::
  "callback_options \<Rightarrow> app_state \<Rightarrow> instrument \<Rightarrow> (string \<times> py_error) + metric" where
  "collect_instrument options st (Counter name) =
     Inr (Total name (sum_list (request_counter st)))"
| "collect_instrument options st (ObservableCounter name callback) =
     (case callback options st of
        Inl e \<Rightarrow> Inl (name, e)
      | Inr obs \<Rightarrow> Inr (Observed name obs))"

definition collect :: "callback_options \<Rightarrow> app_state \<Rightarrow> scrape" where
  "collect options st =
     (let results = map (collect_instrument options st) registered_instruments
      in \<lparr>emitted = [m. Inr m \<leftarrow> results], recorded_errors = [e. Inl e \<leftarrow> results]\<rparr>)"

text \<open>
  Modelled from the spec: one call of \<open>collect()\<close> as a step on the state, with what
  it hands to its caller and what it leaves behind (section 4.2 and section 6). The
  caller gets the emitted entries as serialized text; the exposition format that
  serializes them is the library's and is a parameter here. The errors of the scrape
  are recorded internally, after those recorded before; the counter's running total is
  read and stays as it is.
\<close>

definition scrape ::
  "(metric list \<Rightarrow> 'a) \<Rightarrow> callback_options \<Rightarrow> app_state \<Rightarrow> 'a \<times> app_state" where
  "scrape exposition options st =
     (let s = collect options st
      in (exposition (emitted s),
          st\<lparr>collection_errors := collection_errors st @ recorded_errors s\<rparr>))"

section \<open>Log records and their format\<close>

text \<open>
  The values a log record holds: strings, integers and booleans. \<open>str_value\<close> is
  \<open>str(v)\<close>.
\<close>

datatype py_value = PyStr string | PyInt int | PyBool bool

fun str_value :: "py_value \<Rightarrow> string" where
  "str_value (PyStr s) = s"
| "str_value (PyInt i) = py_str i"
| "str_value (PyBool b) = (if b then ''True'' else ''False'')"

text \<open>
  One conversion of the \<open>%\<close> operator: \<open>s\<close> takes \<open>str\<close> of the value, \<open>d\<close> wants a
  number and raises TypeError on a string.
\<close>

fun convert :: "char \<Rightarrow> py_value \<Rightarrow> py_error + string" where
  "convert c v =
     (if c = CHR ''s'' then Inr (str_value v)
      else if c = CHR ''d'' then
        (case v of
           PyStr s \<Rightarrow> Inl TypeError
         | PyInt i \<Rightarrow> Inr (py_str i)
         | PyBool b \<Rightarrow> Inr (if b then ''1'' else ''0''))
      else Inl ValueError)"

text \<open>
  \<open>fmt % d\<close> for a dictionary \<open>d\<close>, as the formatter of the \<open>logging\<close> module applies
  it to the attributes of a record, restricted to the forms that the format string of
  line 113 uses: literal text, the escape \<open>%%\<close>, and the keyed conversions
  \<open>%(key)s\<close> and \<open>%(key)d\<close>. A key that the dictionary does not hold raises KeyError;
  every other form lies outside this fragment and is given as ValueError, as an
  incomplete format is. The scan keeps the text written so far and one of four modes:
  in literal text, after a \<open>%\<close>, inside the parentheses of a key, and after a key.
\<close>

datatype fmt_mode = Literal | Percent | Key string | Conversion string

fun percent_format_from ::
  "fmt_mode \<Rightarrow> string \<Rightarrow> (string \<times> py_value) list \<Rightarrow> string \<Rightarrow> py_error + string" where
  "percent_format_from mode out d [] = (if mode = Literal then Inr out else Inl ValueError)"
| "percent_format_from mode out d (c # cs) =
     (case mode of
        Literal \<Rightarrow>
          if c = CHR ''%'' then percent_format_from Percent out d cs
          else percent_format_from Literal (out @ [c]) d cs
      | Percent \<Rightarrow>
          if c = CHR ''%'' then percent_format_from Literal (out @ ''%'') d cs
          else if c = CHR ''('' then percent_format_from (Key []) out d cs
          else Inl ValueError
      | Key k \<Rightarrow>
          if c = CHR '')'' then percent_format_from (Conversion k) out d cs
          else percent_format_from (Key (k @ [c])) out d cs
      | Conversion k \<Rightarrow>
          (case map_of d k of
             None \<Rightarrow> Inl KeyError
           | Some v \<Rightarrow>
               (case convert c v of
                  Inl e \<Rightarrow> Inl e
                | Inr s \<Rightarrow> percent_format_from Literal (out @ s) d cs)))"

definition percent_format :: "string \<Rightarrow> (string \<times> py_value) list \<Rightarrow> py_error + string" where
  "percent_format fmt d = percent_format_from Literal [] d fmt"

text \<open>The format string that \<open>init_logs\<close> configures for both handlers (line 113).\<close>

definition log_format :: string where
  "log_format = ''%(asctime)s %(levelname)s [%(name)s] [%(filename)s:%(lineno)d] [trace_id=%(otelTraceID)s span_id=%(otelSpanID)s resource.service.name=%(otelServiceName)s trace_sampled=%(otelTraceSampled)s] - %(message)s''"

text \<open>
  The attributes of a record of the \<open>logging\<close> module that the format string reads,
  and the dictionary the formatter passes to \<open>%\<close>.
\<close>

record log_record =
  rec_asctime :: string
  rec_levelname :: string
  rec_name :: string
  rec_filename :: string
  rec_lineno :: int
  rec_message :: string

definition record_dict :: "log_record \<Rightarrow> (string \<times> py_value) list" where
  "record_dict r =
     [(''name'', PyStr (rec_name r)), (''levelname'', PyStr (rec_levelname r)),
      (''filename'', PyStr (rec_filename r)), (''lineno'', PyInt (rec_lineno r)),
      (''message'', PyStr (rec_message r)), (''asctime'', PyStr (rec_asctime r))]"

text \<open>
  Modelled from the spec: the span context of section 3, the propagatable identity of a
  span (trace id, span id and sampling flag). Its implementation belongs to the tracing
  library, not to app.py.
\<close>

record span_context =
  trace_id :: nat
  span_id :: nat
  trace_sampled :: bool

text \<open>
  Modelled from the spec: the sentinel of section 4.4 that stands for an absent span,
  with all-zero identifiers.
\<close>

definition absent_span_context :: span_context where
  "absent_span_context = \<lparr>trace_id = 0, span_id = 0, trace_sampled = False\<rparr>"

text \<open>
  Modelled from the spec: the Log Correlator of section 4.4, which
  \<open>LoggingInstrumentor().instrument(set_logging_format=True)\<close> installs (line 109) and
  whose implementation belongs to the instrumentation library, not to app.py. Before a
  record is formatted it reads the current span context and injects the trace id, the
  span id, the service name and the sampling flag; when no span is active it
  substitutes the sentinel instead of failing or leaving the fields out. \<open>current\<close> is
  the context of the active span, if there is one.
\<close>

definition inject_span_context ::
  "span_context option \<Rightarrow> string \<Rightarrow> (string \<times> py_value) list \<Rightarrow> (string \<times> py_value) list" where
  "inject_span_context current service d =
     (let ctx = (case current of None \<Rightarrow> absent_span_context | Some c \<Rightarrow> c)
      in d @ [(''otelTraceID'', PyInt (int (trace_id ctx))),
              (''otelSpanID'', PyInt (int (span_id ctx))),
              (''otelServiceName'', PyStr service),
              (''otelTraceSampled'', PyBool (trace_sampled ctx))])"

section \<open>Notions the properties are stated with\<close>

text \<open>A line is matched when it starts with the prefix \<open>cpu\<close> (line 70).\<close>

definition matched :: "string \<Rightarrow> bool" where
  "matched line = startswith line ''cpu''"

text \<open>
  A line carries at least two numeric tick fields when it splits into a first token
  and at least two further tokens of which the first two are integers for \<open>int\<close>:
  \<open>tick_fields\<close> gives the first token and the two tick counts of such a line.
\<close>

definition tick_fields :: "string \<Rightarrow> (string \<times> int \<times> int) option" where
  "tick_fields line =
     (case split line of
        cpu # t0 # t1 # _ \<Rightarrow>
          (case (py_int t0, py_int t1) of
             (Inr u, Inr v) \<Rightarrow> Some (cpu, u, v)
           | _ \<Rightarrow> None)
      | _ \<Rightarrow> None)"

text \<open>
  The two Observations expected of a line with the first token \<open>cpu\<close> and the tick
  counts \<open>u\<close> and \<open>v\<close>, under a division rule \<open>d\<close> and the scale factor 100: user-mode
  first, system-mode second.
\<close>

definition user_system ::
  "(int \<Rightarrow> int \<Rightarrow> int) \<Rightarrow> string \<times> int \<times> int \<Rightarrow> observation list" where
  "user_system d f =
     (case f of (cpu, u, v) \<Rightarrow>
        [Observation (d u 100) [(''cpu'', cpu), (''state'', ''user'')],
         Observation (d v 100) [(''cpu'', cpu), (''state'', ''system'')]])"


text \<open>The label set of an Observation, as a dictionary.\<close>

definition label_set :: "observation \<Rightarrow> (string \<rightharpoonup> string)" where
  "label_set ob = map_of (attributes ob)"


text \<open>
  A state for examples: \<open>/proc/stat\<close> holds the given lines, no other file can be
  opened, nothing has been counted, logged or traced, no scrape has recorded an error,
  and every draw of the generator returns its upper bound.
\<close>

definition stat_state :: "string list \<Rightarrow> app_state" where
  "stat_state lines =
     \<lparr>files = (\<lambda>path. if path = ''/proc/stat'' then Inr lines else Inl OSError),
      request_counter = [], log_calls = [], spans = [],
      rng = (\<lambda>k a b. b), draws = 0, collection_errors = []\<rparr>"


text \<open>The two attribute lists the callback builds for a line whose first token is \<open>c\<close>.\<close>

definition row_labels :: "string \<Rightarrow> (string \<times> string) list list" where
  "row_labels c =
     [[(''cpu'', c), (''state'', ''user'')], [(''cpu'', c), (''state'', ''system'')]]"

section \<open>Properties of the System Stat Sampler\<close>

subsection \<open>Rows that parse\<close>

lemma row_observations_fields:
  "tick_fields row = Some f \<Longrightarrow> row_observations row = Inr (user_system floordiv f)"
  by (auto simp: tick_fields_def row_observations_def user_system_def
      split: list.splits sum.splits)

lemma scan_lines_fields:
  "list_all2 (\<lambda>row f. matched row \<and> tick_fields row = Some f) rows parsed \<Longrightarrow>
   scan_lines acc rows = Inr (acc @ concat (map (user_system floordiv) parsed))"
proof (induction rows parsed arbitrary: acc rule: list_all2_induct)
  case Nil
  then show ?case by simp
next
  case (Cons row rows f parsed)
  then show ?case by (simp add: matched_def row_observations_fields)
qed






subsection \<open>Where the scan ends\<close>

lemma scan_lines_stop:
  "\<not> matched l \<Longrightarrow> scan_lines acc (pre @ l # post) = scan_lines acc pre"
  by (induction pre arbitrary: acc) (auto simp: matched_def split: sum.splits)

text \<open>
  Claim C2. After the first line has been skipped, the callback stops at the first line
  that does not start with \<open>cpu\<close>: when the lines \<open>pre\<close> before the line \<open>l\<close> are all
  matched and \<open>l\<close> is not, the callback returns what it returns on the file that ends
  just before \<open>l\<close>. Neither \<open>l\<close> nor any line of \<open>post\<close> contributes, whatever the lines
  of \<open>post\<close> are.
\<close>

theorem sampler_stops_at_first_unmatched:
  assumes "files st ''/proc/stat'' = Inr (first # pre @ l # post)"
    and "list_all matched pre"
    and "\<not> matched l"
  shows "cpu_time_callback options st =
         cpu_time_callback options
           (st\<lparr>files := (files st)(''/proc/stat'' := Inr (first # pre))\<rparr>)"
  using assms by (simp add: cpu_time_callback_def scan_lines_stop)

text \<open>
  An input with a matched line after the unmatched one: the line \<open>cpu1 30 40\<close> gives no
  Observation.
\<close>

theorem sampler_stops_at_first_unmatched_witness:
  "\<not> matched ''intr 5\<newline>'' \<and> matched ''cpu1 30 40\<newline>'' \<and>
   cpu_time_callback \<lparr>timeout_millis = 10000\<rparr>
     (stat_state [''cpu  1000 2000\<newline>'', ''cpu0 500 600\<newline>'', ''intr 5\<newline>'',
                  ''cpu1 30 40\<newline>'']) =
   Inr [Observation 5 [(''cpu'', ''cpu0''), (''state'', ''user'')],
        Observation 6 [(''cpu'', ''cpu0''), (''state'', ''system'')]]"
proof -
  let ?st = "stat_state [''cpu  1000 2000\<newline>'', ''cpu0 500 600\<newline>'', ''intr 5\<newline>'',
                         ''cpu1 30 40\<newline>'']"
  have f: "files ?st ''/proc/stat'' =
           Inr (''cpu  1000 2000\<newline>'' # [''cpu0 500 600\<newline>''] @
                ''intr 5\<newline>'' # [''cpu1 30 40\<newline>''])"
    by (simp add: stat_state_def)
  have p: "list_all matched [''cpu0 500 600\<newline>'']"
    by code_simp
  have n: "\<not> matched ''intr 5\<newline>''"
    by code_simp
  have m: "matched ''cpu1 30 40\<newline>''"
    by code_simp
  have cut: "cpu_time_callback \<lparr>timeout_millis = 10000\<rparr>
               (?st\<lparr>files := (files ?st)(''/proc/stat'' :=
                  Inr [''cpu  1000 2000\<newline>'', ''cpu0 500 600\<newline>''])\<rparr>) =
             Inr [Observation 5 [(''cpu'', ''cpu0''), (''state'', ''user'')],
                  Observation 6 [(''cpu'', ''cpu0''), (''state'', ''system'')]]"
    by code_simp
  show ?thesis
    using sampler_stops_at_first_unmatched
            [where options = "\<lparr>timeout_millis = 10000\<rparr>", OF f p n] cut n m
    by simp
qed

subsection \<open>Label sets\<close>




lemma row_observations_labels:
  "row_observations row = Inr new \<Longrightarrow> map attributes new = row_labels (hd (split row))"
  by (auto simp: row_observations_def row_labels_def Observation_def
      split: list.splits sum.splits)

lemma scan_lines_labels:
  "scan_lines acc rows = Inr obs \<Longrightarrow>
   map attributes obs =
   map attributes acc @
   concat (map (\<lambda>row. row_labels (hd (split row))) (takeWhile matched rows))"
proof (induction rows arbitrary: acc)
  case Nil
  then show ?case by simp
next
  case (Cons row rows)
  show ?case
  proof (cases "matched row")
    case False
    with Cons.prems show ?thesis by (simp add: matched_def)
  next
    case True
    with Cons.prems obtain new where new: "row_observations row = Inr new"
      and rest: "scan_lines (acc @ new) rows = Inr obs"
      by (auto simp: matched_def split: sum.splits)
    from Cons.IH [OF rest] row_observations_labels [OF new] True
    show ?thesis by simp
  qed
qed

lemma row_labels_distinct:
  "distinct cs \<Longrightarrow> distinct (map map_of (concat (map row_labels cs)))"
proof (induction cs)
  case Nil
  then show ?case by simp
next
  case (Cons c cs)
  have other_cpu: "map_of [(''cpu'', c), (''state'', s)] \<noteq> map_of l"
    if "l \<in> set (concat (map row_labels cs))" for l s
  proof
    assume eq: "map_of [(''cpu'', c), (''state'', s)] = map_of l"
    from that obtain d where d: "d \<in> set cs" and l: "l \<in> set (row_labels d)"
      by auto
    from eq have "map_of [(''cpu'', c), (''state'', s)] ''cpu'' = map_of l ''cpu''"
      by simp
    with l have "c = d"
      by (auto simp: row_labels_def)
    with d Cons.prems show False
      by simp
  qed
  have other_state: "map_of [(''cpu'', c), (''state'', ''user'')] \<noteq>
                map_of [(''cpu'', c), (''state'', ''system'')]"
  proof
    assume "map_of [(''cpu'', c), (''state'', ''user'')] =
            map_of [(''cpu'', c), (''state'', ''system'')]"
    then have "map_of [(''cpu'', c), (''state'', ''user'')] ''state'' =
               map_of [(''cpu'', c), (''state'', ''system'')] ''state''"
      by simp
    then show False
      by simp
  qed
  from Cons other_cpu other_state show ?case
    by (auto simp: row_labels_def)
qed

text \<open>
  Claim C4. When the matched lines of the input (the lines after the first, up to the
  first one that does not start with \<open>cpu\<close>) have pairwise distinct first tokens, the
  Observations the callback returns have pairwise distinct label sets, compared as
  dictionaries.
\<close>

theorem sampler_label_sets_distinct:
  assumes "files st ''/proc/stat'' = Inr lines"
    and "distinct (map (\<lambda>row. hd (split row)) (takeWhile matched (drop 1 lines)))"
    and "cpu_time_callback options st = Inr obs"
  shows "distinct (map label_set obs)"
proof -
  from assms(1,3) have "scan_lines [] (drop 1 lines) = Inr obs"
    by (simp add: cpu_time_callback_def)
  from scan_lines_labels [OF this]
  have "map attributes obs =
        concat (map row_labels
          (map (\<lambda>row. hd (split row)) (takeWhile matched (drop 1 lines))))"
    by (simp add: comp_def)
  moreover have "map label_set obs = map map_of (map attributes obs)"
    by (simp add: label_set_def comp_def)
  ultimately show ?thesis
    using row_labels_distinct [OF assms(2)] by simp
qed

theorem sampler_label_sets_distinct_witness:
  "cpu_time_callback \<lparr>timeout_millis = 10000\<rparr>
     (stat_state [''cpu  100 200\<newline>'', ''cpu0 10 20\<newline>'', ''cpu1 30 40\<newline>'']) =
   Inr [Observation 0 [(''cpu'', ''cpu0''), (''state'', ''user'')],
        Observation 0 [(''cpu'', ''cpu0''), (''state'', ''system'')],
        Observation 0 [(''cpu'', ''cpu1''), (''state'', ''user'')],
        Observation 0 [(''cpu'', ''cpu1''), (''state'', ''system'')]] \<and>
   distinct (map label_set
       [Observation 0 [(''cpu'', ''cpu0''), (''state'', ''user'')],
        Observation 0 [(''cpu'', ''cpu0''), (''state'', ''system'')],
        Observation 0 [(''cpu'', ''cpu1''), (''state'', ''user'')],
        Observation 0 [(''cpu'', ''cpu1''), (''state'', ''system'')]])"
proof -
  let ?a = "[''cpu  100 200\<newline>'', ''cpu0 10 20\<newline>'', ''cpu1 30 40\<newline>'']"
  have f: "files (stat_state ?a) ''/proc/stat'' = Inr ?a"
    by (simp add: stat_state_def)
  have d: "distinct (map (\<lambda>row. hd (split row)) (takeWhile matched (drop 1 ?a)))"
    by code_simp
  have c: "cpu_time_callback \<lparr>timeout_millis = 10000\<rparr> (stat_state ?a) =
           Inr [Observation 0 [(''cpu'', ''cpu0''), (''state'', ''user'')],
                Observation 0 [(''cpu'', ''cpu0''), (''state'', ''system'')],
                Observation 0 [(''cpu'', ''cpu1''), (''state'', ''user'')],
                Observation 0 [(''cpu'', ''cpu1''), (''state'', ''system'')]]"
    by code_simp
  from sampler_label_sets_distinct [OF f d c] c show ?thesis
    by (rule_tac conjI)
qed

subsection \<open>Columns beyond the second\<close>

text \<open>The body of the loop reads the first three tokens of its line and nothing else.\<close>

lemma row_observations_take3:
  "row_observations r =
     (case take 3 (split r) of
        [] \<Rightarrow> Inl ValueError
      | cpu # states \<Rightarrow>
          (case states of
             [] \<Rightarrow> Inl IndexError
           | s0 # rest \<Rightarrow>
               (case py_int s0 of
                  Inl e \<Rightarrow> Inl e
                | Inr u \<Rightarrow>
                    (case rest of
                       [] \<Rightarrow> Inl IndexError
                     | s1 # _ \<Rightarrow>
                         (case py_int s1 of
                            Inl e \<Rightarrow> Inl e
                          | Inr v \<Rightarrow> Inr (user_system floordiv (cpu, u, v)))))))"
proof (cases "split r")
  case Nil
  then show ?thesis by (simp add: row_observations_def)
next
  case (Cons cpu states)
  note c1 = this
  show ?thesis
  proof (cases states)
    case Nil
    with c1 show ?thesis by (simp add: row_observations_def)
  next
    case (Cons s0 rest)
    note c2 = this
    show ?thesis
    proof (cases rest)
      case Nil
      with c1 c2 show ?thesis by (simp add: row_observations_def split: sum.splits)
    next
      case (Cons s1 more)
      with c1 c2 show ?thesis
        by (simp add: row_observations_def user_system_def split: sum.splits)
    qed
  qed
qed

lemma row_observations_cong:
  "take 3 (split r') = take 3 (split r) \<Longrightarrow> row_observations r' = row_observations r"
  by (simp only: row_observations_take3)

lemma scan_lines_cong:
  "list_all2 (\<lambda>row row'. matched row' \<and> take 3 (split row') = take 3 (split row)) rows rows'
   \<Longrightarrow> list_all matched rows \<Longrightarrow> scan_lines acc rows' = scan_lines acc rows"
proof (induction rows rows' arbitrary: acc rule: list_all2_induct)
  case Nil
  then show ?case by simp
next
  case (Cons row rows row' rows')
  from Cons.hyps(1) have same: "row_observations row' = row_observations row"
    by (rule_tac row_observations_cong) blast
  from Cons.hyps(1) Cons.prems have m: "startswith row ''cpu''" "startswith row' ''cpu''"
    by (simp_all add: matched_def)
  from Cons.prems have rest: "list_all matched rows"
    by simp
  show ?case
  proof (cases "row_observations row")
    case (Inl e)
    with m same show ?thesis by simp
  next
    case (Inr new)
    with m same Cons.IH [OF rest, of "acc @ new"] show ?thesis by simp
  qed
qed

lemma length_user_system: "length (concat (map (user_system d) parsed)) = 2 * length parsed"
  by (induction parsed) (auto simp: user_system_def)

lemma states_user_system:
  "map (\<lambda>ob. label_set ob ''state'') (concat (map (user_system d) parsed)) =
   concat (map (\<lambda>f. [Some ''user'', Some ''system'']) parsed)"
  by (induction parsed) (auto simp: user_system_def label_set_def Observation_def)

lemma scan_lines_matched: "scan_lines acc rows = scan_lines acc (takeWhile matched rows)"
  by (induction rows arbitrary: acc) (auto simp: matched_def split: sum.splits)

lemma matched_parsed:
  "list_all2 (\<lambda>row f. tick_fields row = Some f) rows parsed \<Longrightarrow> list_all matched rows \<Longrightarrow>
   list_all2 (\<lambda>row f. matched row \<and> tick_fields row = Some f) rows parsed"
  by (induction rule: list_all2_induct) auto

lemma matched_agree:
  "list_all2 (\<lambda>row row'. take 3 (split row') = take 3 (split row)) rows rows' \<Longrightarrow>
   list_all matched rows' \<Longrightarrow>
   list_all2 (\<lambda>row row'. matched row' \<and> take 3 (split row') = take 3 (split row)) rows rows'"
  by (induction rule: list_all2_induct) auto

lemma matched_takeWhile: "list_all matched (takeWhile matched rows)"
  by (induction rows) auto

text \<open>
  Claim C10, as amended. When \<open>/proc/stat\<close> opens and every matched line of it (the
  lines after the first, up to the first one that does not start with \<open>cpu\<close>) carries
  at least two numeric tick fields, however many fields follow them, the callback
  returns exactly two Observations for each matched line, the first with the state
  \<open>user\<close> and the second with the state \<open>system\<close>; and it returns the same list on
  every input \<open>lines'\<close> whose matched lines agree with these in their first three
  tokens: a column beyond the second tick count changes nothing and gives no
  Observation.
\<close>

theorem sampler_two_observations_per_row:
  assumes "files st ''/proc/stat'' = Inr lines"
    and "list_all2 (\<lambda>row f. tick_fields row = Some f)
           (takeWhile matched (drop 1 lines)) parsed"
    and "files st' ''/proc/stat'' = Inr lines'"
    and "list_all2 (\<lambda>row row'. take 3 (split row') = take 3 (split row))
           (takeWhile matched (drop 1 lines)) (takeWhile matched (drop 1 lines'))"
  shows "map_sum id length (cpu_time_callback options st) =
           Inr (2 * length (takeWhile matched (drop 1 lines))) \<and>
         map_sum id (map (\<lambda>ob. label_set ob ''state'')) (cpu_time_callback options st) =
           Inr (concat (map (\<lambda>row. [Some ''user'', Some ''system''])
                  (takeWhile matched (drop 1 lines)))) \<and>
         cpu_time_callback options st' = cpu_time_callback options st"
proof -
  let ?rows = "takeWhile matched (drop 1 lines)"
  let ?rows' = "takeWhile matched (drop 1 lines')"
  have fields: "list_all2 (\<lambda>row f. matched row \<and> tick_fields row = Some f) ?rows parsed"
    using assms(2) by (rule matched_parsed) (rule matched_takeWhile)
  have agree: "list_all2 (\<lambda>row row'. matched row' \<and> take 3 (split row') = take 3 (split row))
                 ?rows ?rows'"
    using assms(4) by (rule matched_agree) (rule matched_takeWhile)
  have "cpu_time_callback options st = scan_lines [] ?rows"
    using assms(1) scan_lines_matched [of "[]" "drop 1 lines"]
    by (simp add: cpu_time_callback_def)
  then have run: "cpu_time_callback options st =
                  Inr (concat (map (user_system floordiv) parsed))"
    using scan_lines_fields [OF fields, of "[]"] by simp
  have "cpu_time_callback options st' = scan_lines [] ?rows'"
    using assms(3) scan_lines_matched [of "[]" "drop 1 lines'"]
    by (simp add: cpu_time_callback_def)
  also have "\<dots> = scan_lines [] ?rows"
    by (rule scan_lines_cong [OF agree matched_takeWhile])
  also have "\<dots> = cpu_time_callback options st"
    using scan_lines_fields [OF fields, of "[]"] by (simp add: run)
  finally have same: "cpu_time_callback options st' = cpu_time_callback options st" .
  have len: "length parsed = length ?rows"
    using list_all2_lengthD [OF assms(2)] by simp
  have st: "concat (map (\<lambda>f. [Some ''user'', Some ''system'']) parsed) =
            concat (map (\<lambda>row. [Some ''user'', Some ''system'']) ?rows)"
    using len by (simp add: map_replicate_const)
  have a: "map_sum id length (cpu_time_callback options st) = Inr (2 * length ?rows)"
    using len by (simp add: run length_user_system)
  have b: "map_sum id (map (\<lambda>ob. label_set ob ''state'')) (cpu_time_callback options st) =
           Inr (concat (map (\<lambda>row. [Some ''user'', Some ''system'']) ?rows))"
    using st by (simp add: run states_user_system)
  from a b same show ?thesis by blast
qed

text \<open>
  A row in the format of the real file, with ten tick columns and the line \<open>intr\<close> after
  it, against the same row cut after its second tick count.
\<close>

theorem sampler_two_observations_per_row_witness:
  "cpu_time_callback \<lparr>timeout_millis = 10000\<rparr>
     (stat_state [''cpu  1000 2000 7 8 9\<newline>'',
                  ''cpu0 500 600 70 80 90 11 12 13 0 0\<newline>'', ''intr 5 0 9\<newline>'']) =
   cpu_time_callback \<lparr>timeout_millis = 10000\<rparr>
     (stat_state [''cpu  1000 2000\<newline>'', ''cpu0 500 600\<newline>'']) \<and>
   map_sum id length (cpu_time_callback \<lparr>timeout_millis = 10000\<rparr>
     (stat_state [''cpu  1000 2000\<newline>'', ''cpu0 500 600\<newline>''])) = Inr 2 \<and>
   map_sum id (map (\<lambda>ob. label_set ob ''state''))
     (cpu_time_callback \<lparr>timeout_millis = 10000\<rparr>
        (stat_state [''cpu  1000 2000\<newline>'', ''cpu0 500 600\<newline>''])) =
   Inr [Some ''user'', Some ''system'']"
proof -
  let ?a = "[''cpu  1000 2000\<newline>'', ''cpu0 500 600\<newline>'']"
  let ?b = "[''cpu  1000 2000 7 8 9\<newline>'', ''cpu0 500 600 70 80 90 11 12 13 0 0\<newline>'',
             ''intr 5 0 9\<newline>'']"
  have fa: "files (stat_state ?a) ''/proc/stat'' = Inr ?a"
    by (simp add: stat_state_def)
  have fb: "files (stat_state ?b) ''/proc/stat'' = Inr ?b"
    by (simp add: stat_state_def)
  have ta: "takeWhile matched (drop 1 ?a) = [''cpu0 500 600\<newline>'']"
    by code_simp
  have ra: "list_all2 (\<lambda>row f. tick_fields row = Some f) (takeWhile matched (drop 1 ?a))
              [(''cpu0'', 500, 600)]"
    by code_simp
  have rb: "list_all2 (\<lambda>row row'. take 3 (split row') = take 3 (split row))
              (takeWhile matched (drop 1 ?a)) (takeWhile matched (drop 1 ?b))"
    by code_simp
  from sampler_two_observations_per_row
         [where options = "\<lparr>timeout_millis = 10000\<rparr>", OF fa ra fb rb]
  show ?thesis unfolding ta by simp
qed

text \<open>
  The claim as it was stated, for every matched line whatever the number of its tick
  fields, fails on a matched line with a single tick field: \<open>states[1]\<close> raises
  IndexError, and the scrape gets no Observation at all, neither for this line nor for
  the complete line before it.
\<close>

theorem sampler_short_row_counterexample:
  "matched ''cpu1 30\<newline>'' \<and>
   split ''cpu1 30\<newline>'' = [''cpu1'', ''30''] \<and>
   takeWhile matched (drop 1 [''cpu  100 200\<newline>'', ''cpu0 10 20\<newline>'', ''cpu1 30\<newline>'']) =
     [''cpu0 10 20\<newline>'', ''cpu1 30\<newline>''] \<and>
   cpu_time_callback \<lparr>timeout_millis = 10000\<rparr>
     (stat_state [''cpu  100 200\<newline>'', ''cpu0 10 20\<newline>'', ''cpu1 30\<newline>'']) =
   Inl IndexError \<and>
   map_sum id length (cpu_time_callback \<lparr>timeout_millis = 10000\<rparr>
     (stat_state [''cpu  100 200\<newline>'', ''cpu0 10 20\<newline>'', ''cpu1 30\<newline>''])) \<noteq>
   Inr (2 * length
     (takeWhile matched (drop 1 [''cpu  100 200\<newline>'', ''cpu0 10 20\<newline>'', ''cpu1 30\<newline>''])))"
proof -
  have m: "matched ''cpu1 30\<newline>''"
    by code_simp
  have s: "split ''cpu1 30\<newline>'' = [''cpu1'', ''30'']"
    by code_simp
  have t: "takeWhile matched
             (drop 1 [''cpu  100 200\<newline>'', ''cpu0 10 20\<newline>'', ''cpu1 30\<newline>'']) =
           [''cpu0 10 20\<newline>'', ''cpu1 30\<newline>'']"
    by code_simp
  have c: "cpu_time_callback \<lparr>timeout_millis = 10000\<rparr>
             (stat_state [''cpu  100 200\<newline>'', ''cpu0 10 20\<newline>'', ''cpu1 30\<newline>'']) =
           Inl IndexError"
    by code_simp
  show ?thesis
    unfolding c t using m s by simp
qed

section \<open>Properties of the request handler\<close>




text \<open>
  Claim C6. Every invocation of the handler calls \<open>request_counter.add\<close> exactly once,
  with the delta 1, whatever the dice result is and so also when the answer is the
  status 500: after the request, the deltas added are those added before, followed by
  one 1.
\<close>

theorem roll_dice_counts_once:
  "request_counter (snd (roll_dice st)) = request_counter st @ [1]"
  by (simp add: roll_dice_def do_roll_def do_important_job_def randint_def log_call_def
      counter_add_def end_span_def Let_def split: prod.splits)

section \<open>Properties of the configuration\<close>




section \<open>Properties of a scrape\<close>







subsection \<open>Two scrapes in a row\<close>

text \<open>
  What a scrape hands to its caller is decided by the deltas added to the counter and
  by what \<open>/proc/stat\<close> holds, and by nothing else in the state.
\<close>

lemma collect_reads:
  assumes "request_counter st' = request_counter st"
    and "files st' ''/proc/stat'' = files st ''/proc/stat''"
  shows "collect options' st' = collect options st"
  using assms by (simp add: collect_def registered_instruments_def cpu_time_callback_def)

text \<open>A scrape leaves the counter and the files as they are.\<close>

lemma scrape_frame:
  "request_counter (snd (scrape exposition options st)) = request_counter st"
  "files (snd (scrape exposition options st)) = files st"
  by (simp_all add: scrape_def Let_def)

text \<open>
  The output is not the same whatever happens: a request between two scrapes changes
  the total that the second one emits.
\<close>

lemma scrape_sees_request:
  "fst (scrape (\<lambda>ms. ms) options (counter_add 1 st)) \<noteq> fst (scrape (\<lambda>ms. ms) options st)"
  by (simp add: scrape_def collect_def registered_instruments_def counter_add_def Let_def)

text \<open>
  Claim C7. Scrape output is the same under unchanged state. Two evaluations of the
  callback over the same contents of \<open>/proc/stat\<close> return equal results (the same
  Observations with the same values and label sets in the same order, or the same
  exception). So two scrapes between which no delta was added to the counter and the
  source did not change hand the same serialized output to their callers, whatever
  else differs between the two states; and this holds of two scrapes in a row, the
  second made in the state that the first has left, with the errors it recorded.
\<close>

theorem scrape_output_stable:
  assumes "request_counter st' = request_counter st"
    and "files st' ''/proc/stat'' = files st ''/proc/stat''"
  shows "cpu_time_callback options' st' = cpu_time_callback options st \<and>
         fst (scrape exposition options' st') = fst (scrape exposition options st) \<and>
         fst (scrape exposition options' (snd (scrape exposition options st))) =
           fst (scrape exposition options st)"
proof -
  have callback: "cpu_time_callback options' st' = cpu_time_callback options st"
    using assms(2) by (simp add: cpu_time_callback_def)
  have other: "fst (scrape exposition options' st') = fst (scrape exposition options st)"
    using collect_reads [OF assms, of options' options] by (simp add: scrape_def Let_def)
  have "collect options' (snd (scrape exposition options st)) = collect options st"
    by (rule collect_reads) (simp_all add: scrape_frame)
  then have again: "fst (scrape exposition options' (snd (scrape exposition options st))) =
                    fst (scrape exposition options st)"
    by (simp add: scrape_def Let_def)
  from callback other again show ?thesis
    by blast
qed

text \<open>
  Three requests counted, then two scrapes in a row and one more after the service has
  logged and drawn from its generator: each hands out the same entries. With a source
  that does not open, the second scrape in a row hands out the counter alone, as the
  first does, and the state holds the error of each.
\<close>

theorem scrape_output_stable_witness:
  "fst (scrape (\<lambda>ms. ms) \<lparr>timeout_millis = 10000\<rparr>
     (snd (scrape (\<lambda>ms. ms) \<lparr>timeout_millis = 10000\<rparr>
        ((stat_state [''cpu  100 200\<newline>'', ''cpu0 10 20\<newline>'', ''cpu1 30 40\<newline>''])
           \<lparr>request_counter := [1, 1, 1]\<rparr>)))) =
   [Total ''request_counter'' 3,
    Observed ''system.cpu.time''
      [Observation 0 [(''cpu'', ''cpu0''), (''state'', ''user'')],
       Observation 0 [(''cpu'', ''cpu0''), (''state'', ''system'')],
       Observation 0 [(''cpu'', ''cpu1''), (''state'', ''user'')],
       Observation 0 [(''cpu'', ''cpu1''), (''state'', ''system'')]]] \<and>
   fst (scrape (\<lambda>ms. ms) \<lparr>timeout_millis = 500\<rparr>
     ((stat_state [''cpu  100 200\<newline>'', ''cpu0 10 20\<newline>'', ''cpu1 30 40\<newline>''])
        \<lparr>request_counter := [1, 1, 1],
         log_calls := [(INFO, ''roll_dice: Received a request on /rolldice.'')],
         draws := 2\<rparr>)) =
   [Total ''request_counter'' 3,
    Observed ''system.cpu.time''
      [Observation 0 [(''cpu'', ''cpu0''), (''state'', ''user'')],
       Observation 0 [(''cpu'', ''cpu0''), (''state'', ''system'')],
       Observation 0 [(''cpu'', ''cpu1''), (''state'', ''user'')],
       Observation 0 [(''cpu'', ''cpu1''), (''state'', ''system'')]]] \<and>
   fst (scrape (\<lambda>ms. ms) \<lparr>timeout_millis = 10000\<rparr>
     (snd (scrape (\<lambda>ms. ms) \<lparr>timeout_millis = 10000\<rparr>
        ((stat_state [])\<lparr>files := (\<lambda>path. Inl OSError), request_counter := [1, 1, 1]\<rparr>)))) =
   [Total ''request_counter'' 3] \<and>
   collection_errors
     (snd (scrape (\<lambda>ms. ms) \<lparr>timeout_millis = 10000\<rparr>
        (snd (scrape (\<lambda>ms. ms) \<lparr>timeout_millis = 10000\<rparr>
           ((stat_state [])\<lparr>files := (\<lambda>path. Inl OSError),
              request_counter := [1, 1, 1]\<rparr>))))) =
   [(''system.cpu.time'', OSError), (''system.cpu.time'', OSError)]"
proof -
  let ?o = "\<lparr>timeout_millis = 10000\<rparr>"
  let ?a = "(stat_state [''cpu  100 200\<newline>'', ''cpu0 10 20\<newline>'', ''cpu1 30 40\<newline>''])
              \<lparr>request_counter := [1, 1, 1]\<rparr>"
  let ?a' = "(stat_state [''cpu  100 200\<newline>'', ''cpu0 10 20\<newline>'', ''cpu1 30 40\<newline>''])
               \<lparr>request_counter := [1, 1, 1],
                log_calls := [(INFO, ''roll_dice: Received a request on /rolldice.'')],
                draws := 2\<rparr>"
  let ?b = "(stat_state [])\<lparr>files := (\<lambda>path. Inl OSError), request_counter := [1, 1, 1]\<rparr>"
  let ?out = "[Total ''request_counter'' 3,
    Observed ''system.cpu.time''
      [Observation 0 [(''cpu'', ''cpu0''), (''state'', ''user'')],
       Observation 0 [(''cpu'', ''cpu0''), (''state'', ''system'')],
       Observation 0 [(''cpu'', ''cpu1''), (''state'', ''user'')],
       Observation 0 [(''cpu'', ''cpu1''), (''state'', ''system'')]]]"
  have ca: "request_counter ?a' = request_counter ?a"
    by simp
  have fa: "files ?a' ''/proc/stat'' = files ?a ''/proc/stat''"
    by simp
  have first: "fst (scrape (\<lambda>ms. ms) ?o ?a) = ?out"
    by code_simp
  have first_b: "fst (scrape (\<lambda>ms. ms) ?o ?b) = [Total ''request_counter'' 3]"
    by code_simp
  have errors: "collection_errors (snd (scrape (\<lambda>ms. ms) ?o (snd (scrape (\<lambda>ms. ms) ?o ?b)))) =
                [(''system.cpu.time'', OSError), (''system.cpu.time'', OSError)]"
    by code_simp
  from scrape_output_stable
         [where exposition = "\<lambda>ms. ms" and options = ?o and options' = "\<lparr>timeout_millis = 500\<rparr>",
          OF ca fa]
  have other: "fst (scrape (\<lambda>ms. ms) \<lparr>timeout_millis = 500\<rparr> ?a') = ?out"
    unfolding first by blast
  from scrape_output_stable
         [where exposition = "\<lambda>ms. ms" and options = ?o and options' = ?o, OF ca fa]
  have again: "fst (scrape (\<lambda>ms. ms) ?o (snd (scrape (\<lambda>ms. ms) ?o ?a))) = ?out"
    unfolding first by blast
  from scrape_output_stable
         [where exposition = "\<lambda>ms. ms" and options = ?o and options' = ?o
            and st = ?b and st' = ?b, OF refl refl]
  have again_b: "fst (scrape (\<lambda>ms. ms) ?o (snd (scrape (\<lambda>ms. ms) ?o ?b))) =
                 [Total ''request_counter'' 3]"
    unfolding first_b by blast
  from again other again_b errors show ?thesis
    by blast
qed

section \<open>Properties of the log records\<close>

lemma py_str_zero: "py_str 0 = ''0''"
  by (simp add: py_str_def, code_simp)

text \<open>
  Without the injected fields the format string of line 113 cannot be applied: the
  first field it misses raises KeyError.
\<close>

lemma log_format_needs_injection: "percent_format log_format (record_dict r) = Inl KeyError"
  by (simp add: percent_format_def log_format_def record_dict_def)

text \<open>
  Claim C9. A log record emitted while no span is active carries the sentinel: its
  trace id and its span id are present and are zero, its sampling flag is present (and
  is False), its service name is present; and the format string of line 113, which
  refers to these four fields, formats the record without an error, with
  \<open>trace_id=0\<close> and \<open>span_id=0\<close> in the text.
\<close>

theorem log_record_without_span:
  "map_of (inject_span_context None service (record_dict r)) ''otelTraceID'' =
     Some (PyInt 0) \<and>
   map_of (inject_span_context None service (record_dict r)) ''otelSpanID'' =
     Some (PyInt 0) \<and>
   map_of (inject_span_context None service (record_dict r)) ''otelTraceSampled'' =
     Some (PyBool False) \<and>
   map_of (inject_span_context None service (record_dict r)) ''otelServiceName'' =
     Some (PyStr service) \<and>
   percent_format log_format (inject_span_context None service (record_dict r)) =
     Inr (rec_asctime r @ '' '' @ rec_levelname r @ '' ['' @ rec_name r @ ''] ['' @
          rec_filename r @ '':'' @ py_str (rec_lineno r) @
          ''] [trace_id=0 span_id=0 resource.service.name='' @ service @
          '' trace_sampled=False] - '' @ rec_message r)"
proof -
  have fields:
    "map_of (inject_span_context None service (record_dict r)) ''otelTraceID'' =
       Some (PyInt 0)"
    "map_of (inject_span_context None service (record_dict r)) ''otelSpanID'' =
       Some (PyInt 0)"
    "map_of (inject_span_context None service (record_dict r)) ''otelTraceSampled'' =
       Some (PyBool False)"
    "map_of (inject_span_context None service (record_dict r)) ''otelServiceName'' =
       Some (PyStr service)"
    by (simp_all add: inject_span_context_def record_dict_def absent_span_context_def)
  have formatted: "percent_format log_format (inject_span_context None service (record_dict r)) =
     Inr (rec_asctime r @ '' '' @ rec_levelname r @ '' ['' @ rec_name r @ ''] ['' @
          rec_filename r @ '':'' @ py_str (rec_lineno r) @
          ''] [trace_id=0 span_id=0 resource.service.name='' @ service @
          '' trace_sampled=False] - '' @ rec_message r)"
    by (simp add: percent_format_def log_format_def inject_span_context_def record_dict_def
        absent_span_context_def py_str_zero)
  from fields formatted show ?thesis
    by blast
qed

end
